theory Spec2Isabelle
  imports Complex_Main
begin

section \<open>Data model of \<^verbatim>\<open>sandbox_api.py\<close>\<close>

text \<open>
  Text and bytes. A Python \<^verbatim>\<open>str\<close> is represented by the byte sequence of its UTF-8
  encoding, a \<^typ>\<open>string\<close>; \<^verbatim>\<open>bytes\<close> is a \<^typ>\<open>string\<close> as well. With this
  representation \<^verbatim>\<open>str.encode()\<close> keeps the bytes, \<^verbatim>\<open>s + "\n"\<close> appends the byte
  \<open>0x0A\<close>, \<^verbatim>\<open>len(s) > 0\<close> holds exactly when there is at least one byte, and
  \<^verbatim>\<open>bytes.decode()\<close> succeeds exactly on well-formed UTF-8 and raises
  \<^verbatim>\<open>UnicodeDecodeError\<close> otherwise.
\<close>

datatype exn =
    HTTPException nat string
  | FileExistsError
  | FileNotFoundError
  | PermissionError
  | OSError
  | UnicodeDecodeError
  | ValidationError

datatype RunStatus = Success | Failed | SandboxError

datatype CommandRunStatus = Finished | Error | TimeLimitExceeded

record CommandRunResult =
  status :: CommandRunStatus
  execution_time :: "real option"
  return_code :: "int option"
  stdout :: "string option"
  stderr :: "string option"

record RunCodeRequest =
  code :: string
  stdin :: string
  language :: string
  compile_timeout :: real
  run_timeout :: real

text \<open>
  The response model. Its \<^verbatim>\<open>status\<close> field is named \<open>resp_status\<close> here, the name
  \<open>status\<close> being taken by the field of \<^typ>\<open>CommandRunResult\<close>. The handler also
  passes \<^verbatim>\<open>created_at\<close>, which is no field of \<^verbatim>\<open>RunCodeResponse\<close> and is dropped by
  the model class.
\<close>

record RunCodeResponse =
  resp_status :: RunStatus
  message :: string
  compile_result :: "CommandRunResult option"
  run_result :: "CommandRunResult option"
  executor_pod_name :: "string option"
  files :: "(string \<times> string) list"

text \<open>
  On a timeout \<^verbatim>\<open>_run_in_firejail\<close> returns a plain dict, otherwise a
  \<^verbatim>\<open>CommandRunResult\<close>; the response model converts either into a
  \<^verbatim>\<open>CommandRunResult\<close> when the handler builds the response.
\<close>

datatype pyval = PyStatus CommandRunStatus | PyStr string

datatype payload = PDict "(string \<times> pyval) list" | PModel CommandRunResult

section \<open>The host: file system, processes, the semaphore\<close>

record launch =
  cmd :: "string list"
  cwd :: string
  env :: "(string \<times> string) list"

datatype proc_state = Alive | Signalled | Terminated int

datatype event =
    EAcquire
  | ERelease
  | EMkdtemp string
  | EWrite string string string
  | ESpawn launch
  | ECommunicate nat "string option"
  | EKill nat
  | EWait nat
  | ERmtree string

text \<open>
  The state the program acts on: the directories under \<^verbatim>\<open>/dev/shm\<close> (path to the
  files in it), the child processes (the index is the process handle), the value of the
  semaphore \<^verbatim>\<open>POOL\<close>, and the log of the effectful calls made so far, in order.
\<close>

record state =
  fs :: "string \<rightharpoonup> (string \<rightharpoonup> string)"
  procs :: "proc_state list"
  pool :: nat
  trace :: "event list"

text \<open>
  What the host and the child process do during one request, which the program does not
  decide: the host environment \<^verbatim>\<open>os.environ\<close>, the random names \<^verbatim>\<open>mkdtemp\<close> draws,
  faults of the system calls, and the behaviour of the child: after how many seconds it
  exits by itself (\<open>None\<close>: never), its exit code and the bytes it wrote.
\<close>

record world =
  environ :: "string \<rightharpoonup> string"
  tmp_names :: "string list"
  mkdtemp_fault :: "exn option"
  write_fault :: "exn option"
  spawn_fault :: "exn option"
  exit_after :: "real option"
  exit_code :: int
  out_bytes :: string
  err_bytes :: string

definition log :: "event \<Rightarrow> state \<Rightarrow> state" where
  "log e s = s\<lparr>trace := trace s @ [e]\<rparr>"

definition emitted :: "state \<Rightarrow> state \<Rightarrow> event list" where
  "emitted s s' = drop (length (trace s)) (trace s')"

subsection \<open>\<^verbatim>\<open>tempfile.mkdtemp(prefix="fj_", dir="/dev/shm")\<close>\<close>

fun fresh_dir :: "string list \<Rightarrow> (string \<rightharpoonup> (string \<rightharpoonup> string)) \<Rightarrow> string option" where
  "fresh_dir [] f = None"
| "fresh_dir (n # ns) f =
     (if f (''/dev/shm/fj_'' @ n) = None then Some (''/dev/shm/fj_'' @ n) else fresh_dir ns f)"

definition mkdtemp :: "world \<Rightarrow> state \<Rightarrow> (exn + string) \<times> state" where
  "mkdtemp w s =
     (case mkdtemp_fault w of
        Some e \<Rightarrow> (Inl e, s)
      | None \<Rightarrow>
          (case fresh_dir (tmp_names w) (fs s) of
             None \<Rightarrow> (Inl FileExistsError, s)
           | Some d \<Rightarrow> (Inr d, log (EMkdtemp d) (s\<lparr>fs := (fs s)(d \<mapsto> Map.empty)\<rparr>))))"

subsection \<open>\<^verbatim>\<open>Path.write_text\<close> and \<^verbatim>\<open>shutil.rmtree(ignore_errors=True)\<close>\<close>

definition write_text :: "world \<Rightarrow> string \<Rightarrow> string \<Rightarrow> string \<Rightarrow> state \<Rightarrow> (exn + unit) \<times> state" where
  "write_text w d name content s =
     (case write_fault w of
        Some e \<Rightarrow> (Inl e, s)
      | None \<Rightarrow>
          (case fs s d of
             None \<Rightarrow> (Inl FileNotFoundError, s)
           | Some dir \<Rightarrow> (Inr (), log (EWrite d name content) (s\<lparr>fs := (fs s)(d \<mapsto> dir(name \<mapsto> content))\<rparr>))))"

definition rmtree :: "string \<Rightarrow> state \<Rightarrow> state" where
  "rmtree d s = log (ERmtree d) (s\<lparr>fs := (fs s)(d := None)\<rparr>)"

subsection \<open>The child process\<close>

definition create_subprocess_exec :: "world \<Rightarrow> launch \<Rightarrow> state \<Rightarrow> (exn + nat) \<times> state" where
  "create_subprocess_exec w l s =
     (case spawn_fault w of
        Some e \<Rightarrow> (Inl e, s)
      | None \<Rightarrow> (Inr (length (procs s)), log (ESpawn l) (s\<lparr>procs := procs s @ [Alive]\<rparr>)))"

text \<open>
  \<^verbatim>\<open>asyncio.wait_for(proc.communicate(input), timeout)\<close>: with a timeout that is not
  positive the wait is over at once; otherwise the child has to exit before the timeout
  is over. \<open>None\<close> is \<^verbatim>\<open>asyncio.TimeoutError\<close>.
\<close>

definition deadline_first :: "world \<Rightarrow> real \<Rightarrow> bool" where
  "deadline_first w timeout =
     (timeout \<le> 0 \<or> (case exit_after w of None \<Rightarrow> True | Some d \<Rightarrow> timeout \<le> d))"

definition wait_for_communicate ::
  "world \<Rightarrow> nat \<Rightarrow> string option \<Rightarrow> real \<Rightarrow> state \<Rightarrow> (string \<times> string) option \<times> state" where
  "wait_for_communicate w proc input timeout s =
     (if deadline_first w timeout then (None, log (ECommunicate proc input) s)
      else (Some (out_bytes w, err_bytes w),
            log (ECommunicate proc input) (s\<lparr>procs := (procs s)[proc := Terminated (exit_code w)]\<rparr>)))"

definition proc_kill :: "nat \<Rightarrow> state \<Rightarrow> state" where
  "proc_kill proc s = log (EKill proc) (s\<lparr>procs := (procs s)[proc := Signalled]\<rparr>)"

definition proc_wait :: "nat \<Rightarrow> state \<Rightarrow> state" where
  "proc_wait proc s =
     log (EWait proc)
       (if proc < length (procs s) \<and> procs s ! proc = Signalled
        then s\<lparr>procs := (procs s)[proc := Terminated (- 9)]\<rparr> else s)"

definition returncode :: "nat \<Rightarrow> state \<Rightarrow> int option" where
  "returncode proc s =
     (if proc < length (procs s)
      then (case procs s ! proc of Terminated rc \<Rightarrow> Some rc | _ \<Rightarrow> None) else None)"

subsection \<open>\<^verbatim>\<open>bytes.decode()\<close>: strict UTF-8\<close>

definition cont :: "nat \<Rightarrow> bool" where
  "cont b = (128 \<le> b \<and> b \<le> 191)"

fun utf8_ok :: "nat list \<Rightarrow> bool" where
  "utf8_ok [] = True"
| "utf8_ok [a] = (a < 128)"
| "utf8_ok [a, b] =
     (if a < 128 then utf8_ok [b] else 194 \<le> a \<and> a \<le> 223 \<and> cont b)"
| "utf8_ok [a, b, c] =
     (if a < 128 then utf8_ok [b, c]
      else if 194 \<le> a \<and> a \<le> 223 then cont b \<and> utf8_ok [c]
      else if a = 224 then 160 \<le> b \<and> b \<le> 191 \<and> cont c
      else if a = 237 then 128 \<le> b \<and> b \<le> 159 \<and> cont c
      else 225 \<le> a \<and> a \<le> 239 \<and> cont b \<and> cont c)"
| "utf8_ok (a # b # c # d # r) =
     (if a < 128 then utf8_ok (b # c # d # r)
      else if 194 \<le> a \<and> a \<le> 223 then cont b \<and> utf8_ok (c # d # r)
      else if a = 224 then 160 \<le> b \<and> b \<le> 191 \<and> cont c \<and> utf8_ok (d # r)
      else if a = 237 then 128 \<le> b \<and> b \<le> 159 \<and> cont c \<and> utf8_ok (d # r)
      else if 225 \<le> a \<and> a \<le> 239 then cont b \<and> cont c \<and> utf8_ok (d # r)
      else if a = 240 then 144 \<le> b \<and> b \<le> 191 \<and> cont c \<and> cont d \<and> utf8_ok r
      else if a = 244 then 128 \<le> b \<and> b \<le> 143 \<and> cont c \<and> cont d \<and> utf8_ok r
      else 241 \<le> a \<and> a \<le> 243 \<and> cont b \<and> cont c \<and> cont d \<and> utf8_ok r)"

definition decodable :: "string \<Rightarrow> bool" where
  "decodable bs = utf8_ok (map of_char bs)"

definition decode :: "string \<Rightarrow> exn + string" where
  "decode bs = (if decodable bs then Inr bs else Inl UnicodeDecodeError)"

definition encode :: "string \<Rightarrow> string" where
  "encode s = s"

section \<open>The core runner \<^verbatim>\<open>_run_in_firejail\<close>\<close>

text \<open>
  The function is called \<open>run_in_firejail\<close> here, a name cannot start with an
  underscore. Its body is cut in three at the points where control can leave it: the
  calls up to the spawn (\<open>run_in_firejail\<close>), the \<^verbatim>\<open>try\<close> statement
  (\<open>supervise\<close>) and the code after it (\<open>after_exit\<close>). An exception raised by a
  call ends the function with \<open>Inl\<close> and the state reached so far; only
  \<^verbatim>\<open>asyncio.TimeoutError\<close> is caught. The two \<^verbatim>\<open>print\<close> calls write to the log of
  the server and are left out.
\<close>

definition whitelist :: "string list" where
  "whitelist = [''PATH'', ''LANG'', ''LC_ALL'', ''PYTHONIOENCODING'', ''TERM'']"

text \<open>\<^verbatim>\<open>{k: os.environ[k] for k in whitelist if k in os.environ}\<close>\<close>

definition clean_env :: "(string \<rightharpoonup> string) \<Rightarrow> (string \<times> string) list" where
  "clean_env e = concat (map (\<lambda>k. case e k of Some v \<Rightarrow> [(k, v)] | None \<Rightarrow> []) whitelist)"

definition firejail_cmd :: "string \<Rightarrow> string list" where
  "firejail_cmd workdir =
     [''firejail'', ''--quiet'', ''--private='' @ workdir, ''--net=none'', ''--'',
      ''python3'', ''main.py'']"

definition input_bytes :: "string \<Rightarrow> string option" where
  "input_bytes stdin_data =
     (if length stdin_data > 0 then Some (encode (stdin_data @ [CHR 0x0A])) else None)"

definition timeout_dict :: "(string \<times> pyval) list" where
  "timeout_dict =
     [(''status'', PyStatus TimeLimitExceeded),
      (''stdout'', PyStr []),
      (''stderr'', PyStr (''Timeout'' @ [CHR 0x0A]))]"

text \<open>
  The part of \<^verbatim>\<open>_run_in_firejail\<close> after the \<^verbatim>\<open>try\<close> statement, for a child that has
  exited: the two statuses, the removal of the work directory, then the result with
  the decoded output.
\<close>

definition after_exit ::
  "string \<Rightarrow> nat \<Rightarrow> string \<Rightarrow> string \<Rightarrow> state \<Rightarrow> (exn + RunStatus \<times> payload) \<times> state" where
  "after_exit workdir proc out err s =
     (let command_status = (if returncode proc s = Some 0 then Finished else Error);
          st = (if returncode proc s = Some 0 then Success else Failed);
          s' = rmtree workdir s
      in case decode out of
           Inl e \<Rightarrow> (Inl e, s')
         | Inr out' \<Rightarrow>
             (case decode err of
                Inl e \<Rightarrow> (Inl e, s')
              | Inr err' \<Rightarrow>
                  (Inr (st, PModel \<lparr>status = command_status, execution_time = Some 0,
                                    return_code = returncode proc s',
                                    stdout = Some out', stderr = Some err'\<rparr>), s')))"

text \<open>The \<^verbatim>\<open>try\<close> statement and what follows it, for a child that was started.\<close>

definition supervise ::
  "world \<Rightarrow> string \<Rightarrow> nat \<Rightarrow> real \<Rightarrow> string \<Rightarrow> state \<Rightarrow> (exn + RunStatus \<times> payload) \<times> state" where
  "supervise w workdir proc timeout stdin_data s =
     (case wait_for_communicate w proc (input_bytes stdin_data) timeout s of
        (None, s1) \<Rightarrow>
          (Inr (Failed, PDict timeout_dict), rmtree workdir (proc_wait proc (proc_kill proc s1)))
      | (Some (out, err), s1) \<Rightarrow> after_exit workdir proc out err s1)"

definition run_in_firejail ::
  "world \<Rightarrow> string \<Rightarrow> real \<Rightarrow> string \<Rightarrow> state \<Rightarrow> (exn + RunStatus \<times> payload) \<times> state" where
  "run_in_firejail w src timeout stdin_data s =
     (case mkdtemp w s of
        (Inl e, s1) \<Rightarrow> (Inl e, s1)
      | (Inr workdir, s1) \<Rightarrow>
          (case write_text w workdir ''main.py'' src s1 of
             (Inl e, s2) \<Rightarrow> (Inl e, s2)
           | (Inr u, s2) \<Rightarrow>
               (case create_subprocess_exec w
                       \<lparr>cmd = firejail_cmd workdir, cwd = workdir, env = clean_env (environ w)\<rparr> s2 of
                  (Inl e, s3) \<Rightarrow> (Inl e, s3)
                | (Inr proc, s3) \<Rightarrow> supervise w workdir proc timeout stdin_data s3)))"

section \<open>The handler \<^verbatim>\<open>run_code\<close>\<close>

definition POOL_capacity :: nat where
  "POOL_capacity = 200"

text \<open>
  \<^verbatim>\<open>async with POOL\<close>: entering takes a permit when the value is positive and suspends
  the caller otherwise (\<open>None\<close>); leaving gives the permit back, also when the body
  raised.
\<close>

definition sem_acquire :: "state \<Rightarrow> state option" where
  "sem_acquire s = (if pool s > 0 then Some (log EAcquire (s\<lparr>pool := pool s - 1\<rparr>)) else None)"

definition sem_release :: "state \<Rightarrow> state" where
  "sem_release s = log ERelease (s\<lparr>pool := pool s + 1\<rparr>)"

definition opt_str :: "(string \<times> pyval) list \<Rightarrow> string \<Rightarrow> exn + string option" where
  "opt_str d k =
     (case map_of d k of
        None \<Rightarrow> Inr None
      | Some (PyStr x) \<Rightarrow> Inr (Some x)
      | Some (PyStatus x) \<Rightarrow> Inl ValidationError)"

text \<open>
  The conversion of the \<^verbatim>\<open>run_result\<close> argument by the response model: a
  \<^verbatim>\<open>CommandRunResult\<close> is kept, a dict needs the field \<^verbatim>\<open>status\<close> and gives every
  field it lacks the default \<^verbatim>\<open>None\<close>.
\<close>

definition as_CommandRunResult :: "payload \<Rightarrow> exn + CommandRunResult" where
  "as_CommandRunResult p =
     (case p of
        PModel r \<Rightarrow> Inr r
      | PDict d \<Rightarrow>
          (case map_of d ''status'' of
             Some (PyStatus st) \<Rightarrow>
               (case opt_str d ''stdout'' of
                  Inl e \<Rightarrow> Inl e
                | Inr out \<Rightarrow>
                    (case opt_str d ''stderr'' of
                       Inl e \<Rightarrow> Inl e
                     | Inr err \<Rightarrow>
                         Inr \<lparr>status = st, execution_time = None, return_code = None,
                              stdout = out, stderr = err\<rparr>))
           | _ \<Rightarrow> Inl ValidationError))"

definition respond :: "exn + RunStatus \<times> payload \<Rightarrow> exn + RunCodeResponse" where
  "respond r =
     (case r of
        Inl e \<Rightarrow> Inl e
      | Inr (command_result, result) \<Rightarrow>
          (case as_CommandRunResult result of
             Inl e \<Rightarrow> Inl e
           | Inr rr \<Rightarrow>
               Inr \<lparr>resp_status = command_result, message = [], compile_result = None,
                    run_result = Some rr, executor_pod_name = Some [], files = []\<rparr>))"

definition unsupported :: exn where
  "unsupported = HTTPException 400 ''Only Python is supported in this minimal demo.''"

text \<open>
  One request handled from start to end. The result is \<open>None\<close> when the handler is
  suspended at \<^verbatim>\<open>async with POOL\<close> and nothing gives a permit back; otherwise it is
  the exception that leaves the handler or the response it returns.
\<close>

definition run_code :: "world \<Rightarrow> RunCodeRequest \<Rightarrow> state \<Rightarrow> (exn + RunCodeResponse) option \<times> state" where
  "run_code w req s =
     (if language req \<noteq> ''python'' then (Some (Inl unsupported), s)
      else (case sem_acquire s of
              None \<Rightarrow> (None, s)
            | Some s1 \<Rightarrow>
                (case run_in_firejail w (code req) (run_timeout req) (stdin req) s1 of
                   (r, s2) \<Rightarrow> (Some (respond r), sem_release s2))))"

section \<open>Several requests at the gate\<close>





section \<open>Auxiliary notions for the statements\<close>

text \<open>
  The host lets the runner get as far as a started child: \<^verbatim>\<open>mkdtemp\<close> creates the
  directory \<open>d\<close>, the source file is written and the sandbox process is spawned.
\<close>

definition starts :: "world \<Rightarrow> state \<Rightarrow> string \<Rightarrow> bool" where
  "starts w s d =
     (mkdtemp_fault w = None \<and> fresh_dir (tmp_names w) (fs s) = Some d \<and>
      write_fault w = None \<and> spawn_fault w = None)"

text \<open>The arguments of the launch of the child in the work directory \<open>d\<close>.\<close>

definition launch_in :: "world \<Rightarrow> string \<Rightarrow> launch" where
  "launch_in w d = \<lparr>cmd = firejail_cmd d, cwd = d, env = clean_env (environ w)\<rparr>"

text \<open>The state once the child runs in \<open>d\<close>, and the state with a permit taken.\<close>

definition started :: "world \<Rightarrow> string \<Rightarrow> string \<Rightarrow> state \<Rightarrow> state" where
  "started w d c s =
     s\<lparr>fs := (fs s)(d \<mapsto> [''main.py'' \<mapsto> c]), procs := procs s @ [Alive],
       trace := trace s @ [EMkdtemp d, EWrite d ''main.py'' c, ESpawn (launch_in w d)]\<rparr>"

definition admitted :: "state \<Rightarrow> state" where
  "admitted s = s\<lparr>pool := pool s - 1, trace := trace s @ [EAcquire]\<rparr>"



text \<open>The launches in a log, in order.\<close>

fun launched :: "event \<Rightarrow> launch list" where
  "launched (ESpawn l) = [l]"
| "launched e = []"

definition launches :: "event list \<Rightarrow> launch list" where
  "launches es = concat (map launched es)"

text \<open>The directories created in a log, in order.\<close>

fun created :: "event \<Rightarrow> string list" where
  "created (EMkdtemp d) = [d]"
| "created e = []"

definition workspaces :: "event list \<Rightarrow> string list" where
  "workspaces es = concat (map created es)"

subsection \<open>A sample host, request and idle server\<close>

definition sample_host :: world where
  "sample_host =
     \<lparr>environ = [''PATH'' \<mapsto> ''/usr/bin'', ''HOME'' \<mapsto> ''/root'', ''API_KEY'' \<mapsto> ''s3cret''],
      tmp_names = [''k3x9vq''],
      mkdtemp_fault = None, write_fault = None, spawn_fault = None,
      exit_after = Some (1 / 2), exit_code = 0,
      out_bytes = ''4'' @ [CHR 0x0A], err_bytes = []\<rparr>"

definition sample_request :: RunCodeRequest where
  "sample_request =
     \<lparr>code = ''print(2+2)'', stdin = [], language = ''python'',
      compile_timeout = 1, run_timeout = 3\<rparr>"

definition idle :: state where
  "idle = \<lparr>fs = Map.empty, procs = [], pool = POOL_capacity, trace = []\<rparr>"

text \<open>
  The status and the execution time a client reads off the outcome of the handler:
  there is none when the handler raised or is suspended.
\<close>

definition delivered_status :: "(exn + RunCodeResponse) option \<Rightarrow> RunStatus option" where
  "delivered_status r = (case r of Some (Inr resp) \<Rightarrow> Some (resp_status resp) | _ \<Rightarrow> None)"


text \<open>Hosts that differ from the sample in one respect, and a request with stdin.\<close>

definition missing_firejail :: world where
  "missing_firejail = sample_host\<lparr>spawn_fault := Some FileNotFoundError\<rparr>"


definition binary_output :: world where
  "binary_output = sample_host\<lparr>out_bytes := [CHR 0xFF]\<rparr>"





definition binary_request :: RunCodeRequest where
  "binary_request =
     \<lparr>code = ''import sys; sys.stdout.buffer.write(bytes([255]))'', stdin = [],
      language = ''python'', compile_timeout = 1, run_timeout = 3\<rparr>"

definition ruby_request :: RunCodeRequest where
  "ruby_request =
     \<lparr>code = ''puts 1'', stdin = [], language = ''ruby'',
      compile_timeout = 1, run_timeout = 3\<rparr>"

section \<open>What one run does, case by case\<close>

text \<open>
  The result and the final state of the runner and of the handler, for each way the host
  can behave: the deadline elapses first, the child exits first, the spawn fails.
\<close>

lemmas prims = mkdtemp_def write_text_def create_subprocess_exec_def wait_for_communicate_def
  proc_kill_def proc_wait_def rmtree_def log_def returncode_def

lemma run_started:
  assumes "starts w s d"
  shows "run_in_firejail w c t i s = supervise w d (length (procs s)) t i (started w d c s)"
  using assms
  by (simp add: run_in_firejail_def prims starts_def launch_in_def started_def)

lemma supervise_timeout:
  assumes "deadline_first w t"
  shows "supervise w d (length (procs s)) t i (started w d c s) =
    (Inr (Failed, PDict timeout_dict),
     s\<lparr>fs := (fs s)(d := None), procs := procs s @ [Terminated (- 9)],
       trace := trace s @ [EMkdtemp d, EWrite d ''main.py'' c, ESpawn (launch_in w d),
          ECommunicate (length (procs s)) (input_bytes i), EKill (length (procs s)),
          EWait (length (procs s)), ERmtree d]\<rparr>)"
  using assms
  by (simp add: supervise_def prims started_def)

lemma supervise_exit:
  assumes "\<not> deadline_first w t"
  shows "supervise w d (length (procs s)) t i (started w d c s) =
    after_exit d (length (procs s)) (out_bytes w) (err_bytes w)
     (s\<lparr>fs := (fs s)(d \<mapsto> [''main.py'' \<mapsto> c]), procs := procs s @ [Terminated (exit_code w)],
       trace := trace s @ [EMkdtemp d, EWrite d ''main.py'' c, ESpawn (launch_in w d),
          ECommunicate (length (procs s)) (input_bytes i)]\<rparr>)"
  using assms
  by (simp add: supervise_def prims started_def)

lemma snd_after_exit: "snd (after_exit d p out err s) = rmtree d s"
  by (simp add: after_exit_def Let_def split: sum.splits)

lemma fst_after_exit:
  "fst (after_exit d p out err s) =
     (if decodable out \<and> decodable err
      then Inr (if returncode p s = Some 0 then Success else Failed,
          PModel \<lparr>status = (if returncode p s = Some 0 then Finished else Error),
             execution_time = Some 0, return_code = returncode p (rmtree d s),
             stdout = Some out, stderr = Some err\<rparr>)
      else Inl UnicodeDecodeError)"
  by (simp add: after_exit_def Let_def decode_def)

lemma sem_acquire_admitted: "0 < pool s \<Longrightarrow> sem_acquire s = Some (admitted s)"
  by (simp add: sem_acquire_def admitted_def log_def)

lemma starts_admitted: "starts w (admitted s) d = starts w s d"
  by (simp add: starts_def admitted_def)

lemma run_code_admitted:
  assumes "language req = ''python''" "0 < pool s"
  shows "run_code w req s =
     (Some (respond (fst (run_in_firejail w (code req) (run_timeout req) (stdin req) (admitted s)))),
      sem_release (snd (run_in_firejail w (code req) (run_timeout req) (stdin req) (admitted s))))"
  using assms
  by (simp add: run_code_def sem_acquire_admitted split: prod.splits)

lemma respond_timeout:
  "respond (Inr (Failed, PDict timeout_dict)) =
     Inr \<lparr>resp_status = Failed, message = [], compile_result = None,
          run_result = Some \<lparr>status = TimeLimitExceeded, execution_time = None,
             return_code = None, stdout = Some [], stderr = Some (''Timeout'' @ [CHR 0x0A])\<rparr>,
          executor_pod_name = Some [], files = []\<rparr>"
  by (simp add: respond_def as_CommandRunResult_def timeout_dict_def opt_str_def)

lemma respond_model:
  "respond (Inr (st, PModel r)) =
     Inr \<lparr>resp_status = st, message = [], compile_result = None, run_result = Some r,
          executor_pod_name = Some [], files = []\<rparr>"
  by (simp add: respond_def as_CommandRunResult_def)

lemma respond_raise: "respond (Inl e) = Inl e"
  by (simp add: respond_def)

lemma run_code_timeout:
  assumes "language req = ''python''" "0 < pool s" "starts w s d"
    "deadline_first w (run_timeout req)"
  shows "fst (run_code w req s) =
      Some (Inr \<lparr>resp_status = Failed, message = [], compile_result = None,
          run_result = Some \<lparr>status = TimeLimitExceeded, execution_time = None,
             return_code = None, stdout = Some [], stderr = Some (''Timeout'' @ [CHR 0x0A])\<rparr>,
          executor_pod_name = Some [], files = []\<rparr>)"
    and "snd (run_code w req s) =
      s\<lparr>fs := (fs s)(d := None), procs := procs s @ [Terminated (- 9)],
        pool := pool s,
        trace := trace s @ [EAcquire, EMkdtemp d, EWrite d ''main.py'' (code req),
          ESpawn (launch_in w d),
          ECommunicate (length (procs s)) (input_bytes (stdin req)), EKill (length (procs s)),
          EWait (length (procs s)), ERmtree d, ERelease]\<rparr>"
proof -
  from assms(3) have st: "starts w (admitted s) d" by (simp add: starts_admitted)
  have p: "procs (admitted s) = procs s" by (simp add: admitted_def)
  have r: "run_in_firejail w (code req) (run_timeout req) (stdin req) (admitted s) =
    (Inr (Failed, PDict timeout_dict),
     (admitted s)\<lparr>fs := (fs (admitted s))(d := None), procs := procs (admitted s) @ [Terminated (- 9)],
       trace := trace (admitted s) @ [EMkdtemp d, EWrite d ''main.py'' (code req), ESpawn (launch_in w d),
          ECommunicate (length (procs (admitted s))) (input_bytes (stdin req)), EKill (length (procs (admitted s))),
          EWait (length (procs (admitted s))), ERmtree d]\<rparr>)"
    by (simp only: run_started [OF st] supervise_timeout [OF assms(4)])
  show "fst (run_code w req s) =
      Some (Inr \<lparr>resp_status = Failed, message = [], compile_result = None,
          run_result = Some \<lparr>status = TimeLimitExceeded, execution_time = None,
             return_code = None, stdout = Some [], stderr = Some (''Timeout'' @ [CHR 0x0A])\<rparr>,
          executor_pod_name = Some [], files = []\<rparr>)"
    by (simp add: run_code_admitted [OF assms(1,2)] r respond_timeout)
  show "snd (run_code w req s) =
      s\<lparr>fs := (fs s)(d := None), procs := procs s @ [Terminated (- 9)],
        pool := pool s,
        trace := trace s @ [EAcquire, EMkdtemp d, EWrite d ''main.py'' (code req),
          ESpawn (launch_in w d),
          ECommunicate (length (procs s)) (input_bytes (stdin req)), EKill (length (procs s)),
          EWait (length (procs s)), ERmtree d, ERelease]\<rparr>"
    unfolding run_code_admitted [OF assms(1,2)] r using assms(2)
    by (simp add: sem_release_def log_def admitted_def)
qed

lemma run_code_exit:
  assumes "language req = ''python''" "0 < pool s" "starts w s d"
    "\<not> deadline_first w (run_timeout req)"
  shows "fst (run_code w req s) =
      Some (if decodable (out_bytes w) \<and> decodable (err_bytes w)
        then Inr \<lparr>resp_status = (if exit_code w = 0 then Success else Failed),
          message = [], compile_result = None,
          run_result = Some \<lparr>status = (if exit_code w = 0 then Finished else Error),
             execution_time = Some 0, return_code = Some (exit_code w),
             stdout = Some (out_bytes w), stderr = Some (err_bytes w)\<rparr>,
          executor_pod_name = Some [], files = []\<rparr>
        else Inl UnicodeDecodeError)"
    and "snd (run_code w req s) =
      s\<lparr>fs := (fs s)(d := None), procs := procs s @ [Terminated (exit_code w)],
        trace := trace s @ [EAcquire, EMkdtemp d, EWrite d ''main.py'' (code req),
          ESpawn (launch_in w d),
          ECommunicate (length (procs s)) (input_bytes (stdin req)), ERmtree d, ERelease]\<rparr>"
proof -
  from assms(3) have st: "starts w (admitted s) d" by (simp add: starts_admitted)
  have r: "run_in_firejail w (code req) (run_timeout req) (stdin req) (admitted s) =
    after_exit d (length (procs (admitted s))) (out_bytes w) (err_bytes w)
     ((admitted s)\<lparr>fs := (fs (admitted s))(d \<mapsto> [''main.py'' \<mapsto> code req]),
       procs := procs (admitted s) @ [Terminated (exit_code w)],
       trace := trace (admitted s) @ [EMkdtemp d, EWrite d ''main.py'' (code req),
          ESpawn (launch_in w d),
          ECommunicate (length (procs (admitted s))) (input_bytes (stdin req))]\<rparr>)"
    by (simp only: run_started [OF st] supervise_exit [OF assms(4)])
  show "fst (run_code w req s) =
      Some (if decodable (out_bytes w) \<and> decodable (err_bytes w)
        then Inr \<lparr>resp_status = (if exit_code w = 0 then Success else Failed),
          message = [], compile_result = None,
          run_result = Some \<lparr>status = (if exit_code w = 0 then Finished else Error),
             execution_time = Some 0, return_code = Some (exit_code w),
             stdout = Some (out_bytes w), stderr = Some (err_bytes w)\<rparr>,
          executor_pod_name = Some [], files = []\<rparr>
        else Inl UnicodeDecodeError)"
    unfolding run_code_admitted [OF assms(1,2)] r fst_conv fst_after_exit
    by (simp add: respond_model respond_raise returncode_def rmtree_def log_def admitted_def)
  show "snd (run_code w req s) =
      s\<lparr>fs := (fs s)(d := None), procs := procs s @ [Terminated (exit_code w)],
        trace := trace s @ [EAcquire, EMkdtemp d, EWrite d ''main.py'' (code req),
          ESpawn (launch_in w d),
          ECommunicate (length (procs s)) (input_bytes (stdin req)), ERmtree d, ERelease]\<rparr>"
    unfolding run_code_admitted [OF assms(1,2)] r snd_conv snd_after_exit using assms(2)
    by (simp add: sem_release_def rmtree_def log_def admitted_def)
qed

lemma run_code_spawn_fault:
  assumes "language req = ''python''" "0 < pool s" "mkdtemp_fault w = None"
    "fresh_dir (tmp_names w) (fs s) = Some d" "write_fault w = None" "spawn_fault w = Some e"
  shows "run_code w req s =
     (Some (Inl e),
      s\<lparr>fs := (fs s)(d \<mapsto> [''main.py'' \<mapsto> code req]),
        trace := trace s @ [EAcquire, EMkdtemp d, EWrite d ''main.py'' (code req), ERelease]\<rparr>)"
proof -
  have r: "run_in_firejail w (code req) (run_timeout req) (stdin req) (admitted s) =
     (Inl e, (admitted s)\<lparr>fs := (fs (admitted s))(d \<mapsto> [''main.py'' \<mapsto> code req]),
       trace := trace (admitted s) @ [EMkdtemp d, EWrite d ''main.py'' (code req)]\<rparr>)"
    using assms(3-6) by (simp add: run_in_firejail_def prims admitted_def)
  show ?thesis
    unfolding run_code_admitted [OF assms(1,2)] r using assms(2)
    by (simp add: respond_raise sem_release_def log_def admitted_def)
qed

lemma status_run_in_firejail:
  "fst (run_in_firejail w c t i s) = Inr (st, p) \<Longrightarrow> st = Success \<or> st = Failed"
  by (auto simp add: run_in_firejail_def supervise_def after_exit_def prims Let_def
      split: option.splits sum.splits prod.splits if_splits)



subsection \<open>What a returned response tells about the run\<close>

lemma respond_Inr:
  "respond r = Inr resp \<Longrightarrow>
   \<exists>st p rr. r = Inr (st, p) \<and> as_CommandRunResult p = Inr rr \<and>
     resp_status resp = st \<and> run_result resp = Some rr"
  by (auto simp add: respond_def split: sum.splits prod.splits)


lemma run_code_Inr:
  assumes "fst (run_code w req s) = Some (Inr resp)"
  shows "language req = ''python''" and "0 < pool s"
    and "respond (fst (run_in_firejail w (code req) (run_timeout req) (stdin req) (admitted s)))
       = Inr resp"
proof -
  from assms show py: "language req = ''python''"
    by (auto simp add: run_code_def split: if_splits)
  from assms py show pos: "0 < pool s"
    by (cases "pool s") (simp_all add: run_code_def sem_acquire_def)
  from assms show "respond (fst (run_in_firejail w (code req) (run_timeout req) (stdin req)
      (admitted s))) = Inr resp"
    by (simp add: run_code_admitted [OF py pos])
qed

subsection \<open>The log of a request whose child was started\<close>

lemma run_code_log:
  assumes "language req = ''python''" and "0 < pool s" and "starts w s d"
  shows "emitted s (snd (run_code w req s)) =
     [EAcquire, EMkdtemp d, EWrite d ''main.py'' (code req), ESpawn (launch_in w d),
      ECommunicate (length (procs s)) (input_bytes (stdin req))] @
     (if deadline_first w (run_timeout req)
      then [EKill (length (procs s)), EWait (length (procs s))] else []) @
     [ERmtree d, ERelease]"
proof (cases "deadline_first w (run_timeout req)")
  case True
  from run_code_timeout(2) [OF assms True] True show ?thesis
    by (simp add: emitted_def)
next
  case False
  from run_code_exit(2) [OF assms False] False show ?thesis
    by (simp add: emitted_def)
qed

lemma workspace_released_when_child_started:
  assumes "language req = ''python''" and "0 < pool s" and "starts w s d"
  shows "workspaces (emitted s (snd (run_code w req s))) = [d]"
    and "fs (snd (run_code w req s)) d = None"
proof -
  show "workspaces (emitted s (snd (run_code w req s))) = [d]"
    by (auto simp add: run_code_log [OF assms] workspaces_def)
  show "fs (snd (run_code w req s)) d = None"
  proof (cases "deadline_first w (run_timeout req)")
    case True
    from run_code_timeout(2) [OF assms True] show ?thesis by simp
  next
    case False
    from run_code_exit(2) [OF assms False] show ?thesis by simp
  qed
qed

lemma status_mapping_when_output_decodes:
  assumes "language req = ''python''" and "0 < pool s" and "starts w s d"
    and "decodable (out_bytes w)" and "decodable (err_bytes w)"
  shows "delivered_status (fst (run_code w req s)) =
     Some (if \<not> deadline_first w (run_timeout req) \<and> exit_code w = 0 then Success else Failed)"
proof (cases "deadline_first w (run_timeout req)")
  case True
  from run_code_timeout(1) [OF assms(1-3) True] True show ?thesis
    by (simp add: delivered_status_def)
next
  case False
  from run_code_exit(1) [OF assms(1-3) False] assms(4,5) False show ?thesis
    by (simp add: delivered_status_def)
qed

subsection \<open>The gate under interleaving\<close>






subsection \<open>Facts about the samples and the environment\<close>

lemma sample_starts: "starts sample_host idle ''/dev/shm/fj_k3x9vq''"
  by (simp add: starts_def sample_host_def idle_def)


lemma idle_pool: "0 < pool idle"
  by (simp add: idle_def POOL_capacity_def)

lemma map_of_clean_env:
  "map_of (clean_env e) k =
     (if k \<in> {''PATH'', ''LANG'', ''LC_ALL'', ''PYTHONIOENCODING'', ''TERM''} then e k else None)"
  by (simp add: clean_env_def whitelist_def split: option.splits)

lemma distinct_clean_env: "distinct (map fst (clean_env e))"
  by (simp add: clean_env_def whitelist_def split: option.splits)

section \<open>The claims\<close>

subsection \<open>C1: the work directory when the sandbox cannot be spawned\<close>

text \<open>
  Claim C1 says that the work directory of every validated request is destroyed when the
  execution ends, also when the sandbox process cannot be spawned. The runner removes
  the directory on the timeout path and after a normal exit, but
  \<^verbatim>\<open>create_subprocess_exec\<close> stands before the \<^verbatim>\<open>try\<close> statement: when it raises, no
  \<^verbatim>\<open>rmtree\<close> is reached. On a host without \<^verbatim>\<open>firejail\<close> the request
  \<^verbatim>\<open>print(2+2)\<close> ends with \<^verbatim>\<open>FileNotFoundError\<close>, the directory
  \<^verbatim>\<open>/dev/shm/fj_k3x9vq\<close> still exists and holds \<^verbatim>\<open>main.py\<close>, and the log of the
  request has no removal.
\<close>

theorem workspace_left_behind_when_spawn_fails:
  "fst (run_code missing_firejail sample_request idle) = Some (Inl FileNotFoundError) \<and>
   fs (snd (run_code missing_firejail sample_request idle)) ''/dev/shm/fj_k3x9vq'' =
     Some [''main.py'' \<mapsto> ''print(2+2)''] \<and>
   emitted idle (snd (run_code missing_firejail sample_request idle)) =
     [EAcquire, EMkdtemp ''/dev/shm/fj_k3x9vq'',
      EWrite ''/dev/shm/fj_k3x9vq'' ''main.py'' ''print(2+2)'', ERelease]"
proof -
  have "run_code missing_firejail sample_request idle =
     (Some (Inl FileNotFoundError),
      idle\<lparr>fs := (fs idle)(''/dev/shm/fj_k3x9vq'' \<mapsto> [''main.py'' \<mapsto> code sample_request]),
        trace := trace idle @ [EAcquire, EMkdtemp ''/dev/shm/fj_k3x9vq'',
          EWrite ''/dev/shm/fj_k3x9vq'' ''main.py'' (code sample_request), ERelease]\<rparr>)"
    by (rule run_code_spawn_fault)
      (simp_all add: missing_firejail_def sample_host_def sample_request_def idle_def
        POOL_capacity_def)
  then show ?thesis
    by (simp add: emitted_def sample_request_def)
qed

subsection \<open>C2: a launch failure leaves the handler as an exception\<close>




subsection \<open>C3: exit code 0 with output that is not UTF-8\<close>

text \<open>
  Claim C3 says that a process that exits with code 0 is reported as \<open>Success\<close> with
  \<open>Finished\<close> and return code 0. The runner computes these statuses, but then decodes
  the captured bytes with \<^verbatim>\<open>stdout.decode()\<close>: a child that writes the byte \<open>0xFF\<close>
  and exits with code 0 before the deadline makes the handler raise
  \<^verbatim>\<open>UnicodeDecodeError\<close>, and no status is returned. (For output that decodes, the
  mapping is as claimed, see \<open>status_mapping_when_output_decodes\<close>, \<open>run_code_exit\<close>
  and \<open>run_code_timeout\<close>.)
\<close>

theorem exit_zero_with_binary_output_raises:
  "exit_code binary_output = 0 \<and>
   \<not> deadline_first binary_output (run_timeout binary_request) \<and>
   out_bytes binary_output = [CHR 0xFF] \<and>
   fst (run_code binary_output binary_request idle) = Some (Inl UnicodeDecodeError)"
proof -
  have st: "starts binary_output idle ''/dev/shm/fj_k3x9vq''"
    by (simp add: starts_def binary_output_def sample_host_def idle_def)
  have dl: "\<not> deadline_first binary_output (run_timeout binary_request)"
    by (simp add: deadline_first_def binary_output_def sample_host_def binary_request_def)
  have py: "language binary_request = ''python''"
    by (simp add: binary_request_def)
  have nd: "\<not> decodable (out_bytes binary_output)"
    by (simp add: decodable_def binary_output_def sample_host_def)
  from run_code_exit(1) [OF py idle_pool st dl] nd dl show ?thesis
    by (simp add: binary_output_def sample_host_def)
qed

subsection \<open>C4: the deadline elapses first\<close>



subsection \<open>C5: an unsupported language\<close>

text \<open>
  Claim C5: a request whose language is not \<^verbatim>\<open>python\<close> is refused with the client
  error 400 before anything else happens: the state is unchanged (no permit taken, no
  directory, no process) and the request makes no effectful call.
\<close>

theorem unsupported_language_rejected:
  assumes "language req \<noteq> ''python''"
  shows "run_code w req s =
     (Some (Inl (HTTPException 400 ''Only Python is supported in this minimal demo.'')), s) \<and>
     emitted s (snd (run_code w req s)) = []"
  using assms by (simp add: run_code_def unsupported_def emitted_def)

theorem unsupported_language_rejected_witness:
  "language ruby_request \<noteq> ''python'' \<and>
   run_code sample_host ruby_request idle =
     (Some (Inl (HTTPException 400 ''Only Python is supported in this minimal demo.'')), idle) \<and>
   pool (snd (run_code sample_host ruby_request idle)) = POOL_capacity \<and>
   emitted idle (snd (run_code sample_host ruby_request idle)) = []"
proof -
  have h: "language ruby_request \<noteq> ''python''"
    by (simp add: ruby_request_def)
  have p: "pool idle = POOL_capacity"
    by (simp add: idle_def)
  from unsupported_language_rejected [OF h, of sample_host idle] h p show ?thesis
    by (simp add: emitted_def)
qed

subsection \<open>C6: the permits of \<^verbatim>\<open>POOL\<close>\<close>



subsection \<open>C7: the environment of the child\<close>

text \<open>
  Claim C7: the environment handed to the sandboxed process holds exactly the variables
  named \<^verbatim>\<open>PATH\<close>, \<^verbatim>\<open>LANG\<close>, \<^verbatim>\<open>LC_ALL\<close>, \<^verbatim>\<open>PYTHONIOENCODING\<close>, \<^verbatim>\<open>TERM\<close> that the host
  environment has, each with the host's value; every other name is absent. A request
  whose child is started makes one launch, and the environment of that launch, read as a
  dictionary, agrees with the host on the five names and is undefined elsewhere.
\<close>

theorem child_environment_is_whitelist:
  assumes "language req = ''python''" and "0 < pool s" and "starts w s d"
  shows "launches (emitted s (snd (run_code w req s))) = [launch_in w d] \<and>
    map_of (env (launch_in w d)) k =
      (if k \<in> {''PATH'', ''LANG'', ''LC_ALL'', ''PYTHONIOENCODING'', ''TERM''}
       then environ w k else None) \<and>
    distinct (map fst (env (launch_in w d)))"
proof -
  have "launches (emitted s (snd (run_code w req s))) = [launch_in w d]"
    by (auto simp add: run_code_log [OF assms] launches_def)
  moreover have "env (launch_in w d) = clean_env (environ w)"
    by (simp add: launch_in_def)
  ultimately show ?thesis
    by (simp only: map_of_clean_env distinct_clean_env simp_thms)
qed

theorem child_environment_is_whitelist_witness:
  "language sample_request = ''python'' \<and> 0 < pool idle \<and>
   starts sample_host idle ''/dev/shm/fj_k3x9vq'' \<and>
   environ sample_host ''API_KEY'' = Some ''s3cret'' \<and>
   launches (emitted idle (snd (run_code sample_host sample_request idle))) =
     [launch_in sample_host ''/dev/shm/fj_k3x9vq''] \<and>
   map_of (env (launch_in sample_host ''/dev/shm/fj_k3x9vq'')) ''PATH'' = Some ''/usr/bin'' \<and>
   map_of (env (launch_in sample_host ''/dev/shm/fj_k3x9vq'')) ''API_KEY'' = None"
proof -
  have py: "language sample_request = ''python''" by (simp add: sample_request_def)
  have e: "environ sample_host ''API_KEY'' = Some ''s3cret''"
    "environ sample_host ''PATH'' = Some ''/usr/bin''"
    by (simp_all add: sample_host_def)
  from child_environment_is_whitelist [OF py idle_pool sample_starts, of "''PATH''"]
    child_environment_is_whitelist [OF py idle_pool sample_starts, of "''API_KEY''"]
    py idle_pool sample_starts e
  show ?thesis by simp
qed

subsection \<open>C8: the reported execution time\<close>




subsection \<open>C9: what is piped to stdin\<close>



subsection \<open>C10: the status \<open>SandboxError\<close> is never returned\<close>

text \<open>
  Claim C10: whenever the handler returns a response, its status is \<open>Success\<close> or
  \<open>Failed\<close>; no path produces \<open>SandboxError\<close>.
\<close>

theorem sandbox_error_never_returned:
  assumes "fst (run_code w req s) = Some (Inr resp)"
  shows "(resp_status resp = Success \<or> resp_status resp = Failed) \<and>
         resp_status resp \<noteq> SandboxError"
proof -
  let ?R = "run_in_firejail w (code req) (run_timeout req) (stdin req) (admitted s)"
  from respond_Inr [OF run_code_Inr(3) [OF assms]] obtain st p where
    r: "fst ?R = Inr (st, p)" "resp_status resp = st"
    by blast
  from status_run_in_firejail [OF r(1)] r(2) show ?thesis by auto
qed

theorem sandbox_error_never_returned_witness:
  "fst (run_code sample_host sample_request idle) =
     Some (Inr \<lparr>resp_status = Success, message = [], compile_result = None,
          run_result = Some \<lparr>status = Finished, execution_time = Some 0,
             return_code = Some 0, stdout = Some (''4'' @ [CHR 0x0A]), stderr = Some []\<rparr>,
          executor_pod_name = Some [], files = []\<rparr>) \<and>
   resp_status \<lparr>resp_status = Success, message = [], compile_result = None,
          run_result = Some \<lparr>status = Finished, execution_time = Some 0,
             return_code = Some 0, stdout = Some (''4'' @ [CHR 0x0A]), stderr = Some []\<rparr>,
          executor_pod_name = Some [], files = []\<rparr> \<noteq> SandboxError"
proof -
  have py: "language sample_request = ''python''" by (simp add: sample_request_def)
  have dl: "\<not> deadline_first sample_host (run_timeout sample_request)"
    by (simp add: deadline_first_def sample_host_def sample_request_def)
  have d: "decodable (out_bytes sample_host)" "decodable (err_bytes sample_host)"
    by (simp_all add: decodable_def sample_host_def)
  from run_code_exit(1) [OF py idle_pool sample_starts dl] d
  have r: "fst (run_code sample_host sample_request idle) =
     Some (Inr \<lparr>resp_status = Success, message = [], compile_result = None,
          run_result = Some \<lparr>status = Finished, execution_time = Some 0,
             return_code = Some 0, stdout = Some (''4'' @ [CHR 0x0A]), stderr = Some []\<rparr>,
          executor_pod_name = Some [], files = []\<rparr>)"
    by (simp add: sample_host_def)
  from sandbox_error_never_returned [OF r] r show ?thesis by simp
qed

end
